theory Spec2Isabelle
  imports Main
begin

section \<open>JavaScript values that flow through the cache decorator\<close>

text \<open>
  A Buffer is its octets; a JavaScript string is modelled by the octets of its UTF-8
  encoding, so that \<^verbatim>\<open>new Buffer(str)\<close> and \<^verbatim>\<open>buf.toString()\<close> keep the octets. Only
  well-formed text is in the model: a string with a lone surrogate, and octets that are
  not UTF-8, which the library replaces by U+FFFD, are not.
\<close>

type_synonym bytes = string

text \<open>
  The values the upstream \<^verbatim>\<open>get\<close> hands to its callback as \<^verbatim>\<open>buffer\<close> or \<^verbatim>\<open>headers\<close>,
  and the values \<^verbatim>\<open>JSON.parse\<close> returns. Numbers are restricted to integers.
\<close>

datatype jsval =
    JUndefined
  | JNull
  | JBool bool
  | JNum int
  | JStr string
  | JBuffer bytes
  | JArr "jsval list"
  | JObj "(string \<times> jsval) list"

text \<open>JavaScript truthiness: \<^verbatim>\<open>if (v)\<close>. Every object, also an empty Buffer, is truthy.\<close>

fun truthy :: "jsval \<Rightarrow> bool" where
  "truthy JUndefined = False"
| "truthy JNull = False"
| "truthy (JBool b) = b"
| "truthy (JNum n) = (n \<noteq> 0)"
| "truthy (JStr s) = (s \<noteq> [])"
| "truthy (JBuffer b) = True"
| "truthy (JArr xs) = True"
| "truthy (JObj kvs) = True"

text \<open>\<^verbatim>\<open>typeof v === 'object'\<close> (true of \<^verbatim>\<open>null\<close> as well).\<close>

fun typeof_object :: "jsval \<Rightarrow> bool" where
  "typeof_object JNull = True"
| "typeof_object (JBuffer b) = True"
| "typeof_object (JArr xs) = True"
| "typeof_object (JObj kvs) = True"
| "typeof_object v = False"

text \<open>\<^verbatim>\<open>v instanceof Buffer\<close>.\<close>

fun instanceof_Buffer :: "jsval \<Rightarrow> bool" where
  "instanceof_Buffer (JBuffer b) = True"
| "instanceof_Buffer v = False"

text \<open>
  An \<^verbatim>\<open>Error\<close> object with the properties the code reads or writes: \<^verbatim>\<open>status\<close> and
  \<^verbatim>\<open>code\<close> (read by \<^verbatim>\<open>errcode\<close>), \<^verbatim>\<open>redis\<close> (set by \<^verbatim>\<open>decode\<close>) and \<^verbatim>\<open>key\<close> (set before a
  diagnostic is emitted). An absent error (\<^verbatim>\<open>null\<close> or \<^verbatim>\<open>undefined\<close>) is \<open>None\<close>.
\<close>

record jserror =
  message :: string
  status :: jsval
  code :: jsval
  redis :: bool
  key :: "string option"

text \<open>\<^verbatim>\<open>new Error(msg)\<close>.\<close>

definition Error :: "string \<Rightarrow> jserror" where
  "Error msg = \<lparr>message = msg, status = JUndefined, code = JUndefined, redis = False, key = None\<rparr>"

text \<open>Exceptions raised by the language or its library.\<close>

datatype exn = TypeError | SyntaxError | RangeError

text \<open>The exception object a \<^verbatim>\<open>catch\<close> clause binds; its message stands for the engine's.\<close>

fun exn_error :: "exn \<Rightarrow> jserror" where
  "exn_error TypeError = Error ''TypeError''"
| "exn_error SyntaxError = Error ''SyntaxError''"
| "exn_error RangeError = Error ''RangeError''"

text \<open>
  What \<^verbatim>\<open>encode\<close> returns and what the variables \<^verbatim>\<open>cached\<close> and \<^verbatim>\<open>current\<close> of \<^verbatim>\<open>race\<close>
  hold: \<^verbatim>\<open>null\<close>, a string, or a Buffer.
\<close>

datatype encoded = ENull | EString string | EBuffer bytes

fun truthy_encoded :: "encoded \<Rightarrow> bool" where
  "truthy_encoded ENull = False"
| "truthy_encoded (EString s) = (s \<noteq> [])"
| "truthy_encoded (EBuffer b) = True"

text \<open>What \<^verbatim>\<open>decode\<close> returns: an \<^verbatim>\<open>Error\<close> object (returned, not thrown) or a value.\<close>

datatype data = DErr jserror | DVal jsval

fun truthy_data :: "data \<Rightarrow> bool" where
  "truthy_data (DErr e) = True"
| "truthy_data (DVal v) = truthy v"

section \<open>The environment of \<^verbatim>\<open>cachingGet\<close>\<close>

text \<open>\<^verbatim>\<open>options.expires\<close>: a number, or an object from hostnames (and \<^verbatim>\<open>default\<close>) to numbers.\<close>

datatype expires_opt = ExpiresNumber nat | ExpiresMap "string \<Rightarrow> nat option"

text \<open>
  The closure variables of \<^verbatim>\<open>cachingGet\<close> and the library functions it calls, which are
  not part of the repository and are taken as parameters: \<^verbatim>\<open>JSON.stringify\<close>,
  \<^verbatim>\<open>JSON.parse\<close> (\<open>None\<close> when it throws a \<^verbatim>\<open>SyntaxError\<close>) and the \<^verbatim>\<open>hostname\<close> that
  \<^verbatim>\<open>url.parse\<close> finds (\<open>None\<close> for \<^verbatim>\<open>null\<close>). The two numbers are
  \<^verbatim>\<open>client.command_queue.length\<close> and \<^verbatim>\<open>client.command_queue_high_water\<close> as the invocation
  reads them.
\<close>

record env =
  namespace :: string
  expires :: expires_opt
  command_queue_length :: nat
  command_queue_high_water :: nat
  urlParse_hostname :: "string \<Rightarrow> string option"
  JSON_stringify :: "jsval \<Rightarrow> string"
  JSON_parse :: "string \<Rightarrow> jsval option"

section \<open>The codec\<close>

text \<open>\<^verbatim>\<open>errcode\<close>: 404 or 403 from \<^verbatim>\<open>status\<close>, then from \<^verbatim>\<open>code\<close>; otherwise \<^verbatim>\<open>undefined\<close>.\<close>

fun errcode :: "jserror option \<Rightarrow> nat option" where
  "errcode None = None"
| "errcode (Some err) =
     (if status err = JNum 404 then Some 404
      else if status err = JNum 403 then Some 403
      else if code err = JNum 404 then Some 404
      else if code err = JNum 403 then Some 403
      else None)"

text \<open>\<^verbatim>\<open>Number.prototype.toString\<close> on a natural number: its decimal digits.\<close>

definition digit_char :: "nat \<Rightarrow> char" where
  "digit_char d = ''0123456789'' ! d"

fun toString :: "nat \<Rightarrow> string" where
  "toString n = (if n < 10 then [digit_char n] else toString (n div 10) @ [digit_char (n mod 10)])"

declare toString.simps [simp del]

text \<open>
  \<^verbatim>\<open>parseInt(s, 10)\<close> on a string of decimal digits. It is called on \<^verbatim>\<open>'404'\<close> and
  \<^verbatim>\<open>'403'\<close> only, so \<^verbatim>\<open>NaN\<close> does not arise.
\<close>

definition digit_value :: "char \<Rightarrow> int" where
  "digit_value c = int (of_char c) - 48"

definition parseInt :: "string \<Rightarrow> int" where
  "parseInt s = foldl (\<lambda>acc c. acc * 10 + digit_value c) 0 s"

text \<open>
  \<^verbatim>\<open>new Buffer(v)\<close> for a value that is not an object: the octets of a string, \<open>n\<close> octets
  for a number (zero-filled here), a \<^verbatim>\<open>TypeError\<close> otherwise. An exception is \<open>Inl\<close>.
\<close>

fun new_Buffer :: "jsval \<Rightarrow> exn + bytes" where
  "new_Buffer (JStr s) = Inr s"
| "new_Buffer (JNum n) = (if n < 0 then Inl RangeError else Inr (replicate (nat n) (CHR 0x00)))"
| "new_Buffer v = Inl TypeError"

text \<open>
  \<^verbatim>\<open>Buffer.concat([new Buffer('B'), buffer], buffer.length + 1)\<close>. Reading \<^verbatim>\<open>length\<close> of
  \<^verbatim>\<open>undefined\<close> or \<^verbatim>\<open>null\<close> raises a \<^verbatim>\<open>TypeError\<close>, and so does \<^verbatim>\<open>Buffer.concat\<close> on a list
  element that is not a Buffer.
\<close>

fun concat_B :: "jsval \<Rightarrow> exn + encoded" where
  "concat_B (JBuffer b) = Inr (EBuffer (CHR ''B'' # b))"
| "concat_B v = Inl TypeError"

text \<open>\<^verbatim>\<open>encode(err, buffer)\<close>.\<close>

definition encode :: "env \<Rightarrow> jserror option \<Rightarrow> jsval \<Rightarrow> exn + encoded" where
  "encode E err buffer =
     (case errcode err of
        Some c \<Rightarrow> Inr (EString (CHR ''E'' # toString c))
      | None \<Rightarrow>
          if err \<noteq> None then Inr ENull
          else if truthy buffer \<and> typeof_object buffer \<and> \<not> instanceof_Buffer buffer
            then Inr (EBuffer (CHR ''O'' # JSON_stringify E buffer))
          else if truthy buffer \<and> \<not> instanceof_Buffer buffer
            then (case new_Buffer buffer of
                    Inl x \<Rightarrow> Inl x
                  | Inr b \<Rightarrow> Inr (EBuffer (CHR ''S'' # b)))
          else concat_B buffer)"

text \<open>
  The error \<^verbatim>\<open>decode\<close> builds for an \<^verbatim>\<open>E\<close> entry: a fresh \<^verbatim>\<open>Error\<close> whose \<^verbatim>\<open>code\<close> and
  \<^verbatim>\<open>status\<close> are the number and whose \<^verbatim>\<open>redis\<close> is \<^verbatim>\<open>true\<close>.
\<close>

definition store_derived :: "int \<Rightarrow> jserror" where
  "store_derived n = \<lparr>message = [], status = JNum n, code = JNum n, redis = True, key = None\<rparr>"

text \<open>
  \<^verbatim>\<open>decode(encoded)\<close> on the octets of a string or a Buffer; \<open>wrap\<close> says which of the two
  \<^verbatim>\<open>encoded.slice(1)\<close> is. The \<^verbatim>\<open>Invalid cache value\<close> error is returned, not thrown; only
  \<^verbatim>\<open>JSON.parse\<close> throws.
\<close>

definition decode_slices :: "env \<Rightarrow> (bytes \<Rightarrow> jsval) \<Rightarrow> bytes \<Rightarrow> exn + data" where
  "decode_slices E wrap bs =
     (let hint = take 1 bs; buffer = drop 1 bs in
      if hint = ''E'' \<and> (buffer = ''404'' \<or> buffer = ''403'')
        then Inr (DErr (store_derived (parseInt buffer)))
      else if \<not> List.member [''O'', ''S'', ''B''] hint
        then Inr (DErr (Error ''Invalid cache value''))
      else if hint = ''O''
        then (case JSON_parse E buffer of
                None \<Rightarrow> Inl SyntaxError
              | Some v \<Rightarrow> Inr (DVal v))
      else if hint = ''S'' then Inr (DVal (JStr buffer))
      else Inr (DVal (wrap buffer)))"

text \<open>\<^verbatim>\<open>decode(encoded)\<close>; \<^verbatim>\<open>null\<close> has no \<^verbatim>\<open>slice\<close>.\<close>

fun decode :: "env \<Rightarrow> encoded \<Rightarrow> exn + data" where
  "decode E ENull = Inl TypeError"
| "decode E (EString s) = decode_slices E JStr s"
| "decode E (EBuffer b) = decode_slices E JBuffer b"

section \<open>What an invocation does\<close>

text \<open>
  The receiver of a call of the upstream \<^verbatim>\<open>get\<close>: \<^verbatim>\<open>get.call(source, url, ...)\<close> runs it
  with \<^verbatim>\<open>this\<close> bound to the source the decorated method was invoked on; the plain call
  \<^verbatim>\<open>get(url, ...)\<close> runs it detached from the source.
\<close>

datatype receiver = Source | Detached

text \<open>
  The observable actions of an invocation, in the order they happen: the upstream \<^verbatim>\<open>get\<close>
  is called (with its receiver), \<^verbatim>\<open>client.get\<close> or \<^verbatim>\<open>client.setex\<close> is issued,
  \<^verbatim>\<open>client.emit('error', err)\<close> surfaces a diagnostic, the caller's
  \<^verbatim>\<open>callback(err, buffer, headers)\<close> is invoked (a missing argument is \<^verbatim>\<open>undefined\<close>), or
  an exception leaves a callback uncaught.
\<close>

datatype effect =
    Upstream receiver string
  | Get string
  | Setex string nat encoded
  | Emit jserror
  | Callback "jserror option" jsval jsval
  | Uncaught exn

fun is_Callback :: "effect \<Rightarrow> bool" where
  "is_Callback (Callback err buffer headers) = True"
| "is_Callback e = False"

fun is_Setex :: "effect \<Rightarrow> bool" where
  "is_Setex (Setex k ttl v) = True"
| "is_Setex e = False"

fun is_Get :: "effect \<Rightarrow> bool" where
  "is_Get (Get k) = True"
| "is_Get e = False"

definition callbacks :: "effect list \<Rightarrow> effect list" where
  "callbacks fx = filter is_Callback fx"

definition store_writes :: "effect list \<Rightarrow> effect list" where
  "store_writes fx = filter is_Setex fx"

definition store_reads :: "effect list \<Rightarrow> effect list" where
  "store_reads fx = filter is_Get fx"

text \<open>\<^verbatim>\<open>var key = namespace + '-' + url\<close>.\<close>

definition cache_key :: "env \<Rightarrow> string \<Rightarrow> string" where
  "cache_key E url = namespace E @ ''-'' @ url"

text \<open>\<^verbatim>\<open>a || b\<close> on a property that may be missing: a missing or zero value is falsy.\<close>

fun or_else :: "nat option \<Rightarrow> nat \<Rightarrow> nat" where
  "or_else None d = d"
| "or_else (Some n) d = (if n \<noteq> 0 then n else d)"

text \<open>
  The \<^verbatim>\<open>expires\<close> of an invocation: the number itself, or
  \<^verbatim>\<open>options.expires[urlParse(url).hostname] || options.expires.default || 300\<close>.
  A \<^verbatim>\<open>null\<close> hostname indexes the property \<^verbatim>\<open>'null'\<close>. The object is taken with its own
  numeric properties only; a hostname that names an inherited property, such as
  \<^verbatim>\<open>constructor\<close>, is not in the model.
\<close>

definition resolve_expires :: "env \<Rightarrow> string \<Rightarrow> nat" where
  "resolve_expires E url =
     (case expires E of
        ExpiresNumber n \<Rightarrow> n
      | ExpiresMap m \<Rightarrow>
          or_else (m (case urlParse_hostname E url of None \<Rightarrow> ''null'' | Some h \<Rightarrow> h))
            (or_else (m ''default'') 300))"

text \<open>\<^verbatim>\<open>client.command_queue.length < client.command_queue_high_water\<close>.\<close>

definition below_high_water :: "env \<Rightarrow> bool" where
  "below_high_water E = (command_queue_length E < command_queue_high_water E)"

definition high_water_error :: jserror where
  "high_water_error = Error ''Redis command queue at high water mark''"

text \<open>
  A decoded entry goes to the caller as \<^verbatim>\<open>callback(data)\<close> when it is an \<^verbatim>\<open>Error\<close> and as
  \<^verbatim>\<open>callback(null, data)\<close> otherwise; no headers are passed.
\<close>

fun deliver :: "data \<Rightarrow> effect" where
  "deliver (DErr e) = Callback (Some e) JUndefined JUndefined"
| "deliver (DVal v) = Callback None v JUndefined"

section \<open>The race strategy\<close>

text \<open>The variables \<^verbatim>\<open>sent\<close>, \<^verbatim>\<open>cached\<close> and \<^verbatim>\<open>current\<close> that the two callbacks share.\<close>

record race_state =
  sent :: bool
  cached :: encoded
  current :: encoded

text \<open>
  \<^verbatim>\<open>bufferEqual(a, b)\<close> of the package buffer-equal: whether two Buffers hold the same
  octets, and \<^verbatim>\<open>undefined\<close> (\<open>None\<close>) when either argument is not a Buffer.
\<close>

fun bufferEqual :: "encoded \<Rightarrow> encoded \<Rightarrow> bool option" where
  "bufferEqual (EBuffer a) (EBuffer b) = Some (a = b)"
| "bufferEqual a b = None"

text \<open>\<^verbatim>\<open>finalize()\<close>: returns when \<^verbatim>\<open>bufferEqual(cached, current)\<close> is truthy, else writes.\<close>

definition finalize :: "string \<Rightarrow> nat \<Rightarrow> race_state \<Rightarrow> effect list" where
  "finalize k ttl st =
     (if bufferEqual (cached st) (current st) = Some True then []
      else [Setex k ttl (current st)])"

text \<open>
  The callback of the upstream \<^verbatim>\<open>get\<close>. An exception of \<^verbatim>\<open>encode\<close> leaves it at its
  first statement.
\<close>

definition race_get_callback ::
  "env \<Rightarrow> string \<Rightarrow> nat \<Rightarrow> jserror option \<Rightarrow> jsval \<Rightarrow> jsval \<Rightarrow> race_state
    \<Rightarrow> race_state \<times> effect list" where
  "race_get_callback E k ttl err buffer headers st =
     (case encode E err buffer of
        Inl x \<Rightarrow> (st, [Uncaught x])
      | Inr c \<Rightarrow>
          (let st1 = st\<lparr>current := c\<rparr>;
               fx = (if truthy_encoded (cached st1) \<and> truthy_encoded (current st1)
                     then finalize k ttl st1 else [])
           in if sent st1 then (st1, fx)
              else (st1\<lparr>sent := True\<rparr>, fx @ [Callback err buffer headers])))"

text \<open>
  The callback of \<^verbatim>\<open>client.get\<close>; \<open>encoded\<close> is a Buffer, or \<open>None\<close> for \<^verbatim>\<open>null\<close>
  (the client returns Buffers).
\<close>

definition race_redis_callback ::
  "env \<Rightarrow> string \<Rightarrow> nat \<Rightarrow> jserror option \<Rightarrow> bytes option \<Rightarrow> race_state
    \<Rightarrow> race_state \<times> effect list" where
  "race_redis_callback E k ttl err encoded st =
     (case err of
        Some e \<Rightarrow> (st, [Emit (e\<lparr>key := Some k\<rparr>)])
      | None \<Rightarrow>
          (let st1 = st\<lparr>cached := (case encoded of Some b \<Rightarrow> EBuffer b | None \<Rightarrow> EString ''500'')\<rparr>;
               fx = (if truthy_encoded (cached st1) \<and> truthy_encoded (current st1)
                     then finalize k ttl st1 else [])
           in if sent st1 \<or> encoded = None then (st1, fx)
              else
                (case decode E (cached st1) of
                   Inl x \<Rightarrow>
                     (st1\<lparr>cached := EString ''500''\<rparr>, fx @ [Emit ((exn_error x)\<lparr>key := Some k\<rparr>)])
                 | Inr d \<Rightarrow>
                     if truthy_data d then (st1\<lparr>sent := True\<rparr>, fx @ [deliver d])
                     else (st1, fx))))"

text \<open>The completion of one of the two operations an invocation launched.\<close>

datatype event =
    UpstreamDone "jserror option" jsval jsval
  | StoreDone "jserror option" "bytes option"

fun is_UpstreamDone :: "event \<Rightarrow> bool" where
  "is_UpstreamDone (UpstreamDone err buffer headers) = True"
| "is_UpstreamDone ev = False"

fun race_step :: "env \<Rightarrow> string \<Rightarrow> nat \<Rightarrow> event \<Rightarrow> race_state \<Rightarrow> race_state \<times> effect list" where
  "race_step E k ttl (UpstreamDone err buffer headers) st =
     race_get_callback E k ttl err buffer headers st"
| "race_step E k ttl (StoreDone err encoded) st =
     race_redis_callback E k ttl err encoded st"

text \<open>The callbacks run one at a time, in the order the completions arrive.\<close>

fun race_run :: "env \<Rightarrow> string \<Rightarrow> nat \<Rightarrow> event list \<Rightarrow> race_state \<Rightarrow> effect list" where
  "race_run E k ttl [] st = []"
| "race_run E k ttl (ev # evs) st =
     (case race_step E k ttl ev st of (st', fx) \<Rightarrow> fx @ race_run E k ttl evs st')"

text \<open>
  \<^verbatim>\<open>race(url, callback)\<close>, given the completions that arrive afterwards. Above the high
  water mark no \<^verbatim>\<open>client.get\<close> is issued, so no store completion is ever handled.
\<close>

definition race :: "env \<Rightarrow> string \<Rightarrow> event list \<Rightarrow> effect list" where
  "race E url evs =
     (let k = cache_key E url;
          ttl = resolve_expires E url;
          st0 = \<lparr>sent = False, cached = ENull, current = ENull\<rparr>
      in if below_high_water E
         then Upstream Source url # Get k # race_run E k ttl evs st0
         else Upstream Source url # Emit high_water_error
                # race_run E k ttl (filter is_UpstreamDone evs) st0)"

text \<open>
  The orders in which the completions of one invocation can arrive when the upstream
  completes with \<open>u\<close> and the store, if it was asked and answers, with \<open>s\<close>.
\<close>

definition schedules ::
  "env \<Rightarrow> jserror option \<times> jsval \<times> jsval \<Rightarrow> jserror option \<times> bytes option \<Rightarrow> event list list" where
  "schedules E u s =
     (case u of (err, buffer, headers) \<Rightarrow>
      case s of (serr, encoded) \<Rightarrow>
        if below_high_water E
        then [[UpstreamDone err buffer headers, StoreDone serr encoded],
              [StoreDone serr encoded, UpstreamDone err buffer headers],
              [UpstreamDone err buffer headers]]
        else [[UpstreamDone err buffer headers]])"

section \<open>The readthrough strategy\<close>

text \<open>
  The callback of the upstream \<^verbatim>\<open>get\<close> after a miss: an unhandled error goes to the caller
  alone; otherwise the caller is answered first and the outcome is written afterwards.
\<close>

definition readthrough_get_callback ::
  "env \<Rightarrow> string \<Rightarrow> nat \<Rightarrow> jserror option \<times> jsval \<times> jsval \<Rightarrow> effect list" where
  "readthrough_get_callback E k ttl u =
     (case u of (err, buffer, headers) \<Rightarrow>
        if err \<noteq> None \<and> errcode err = None then [Callback err JUndefined JUndefined]
        else Callback err buffer headers #
               (case encode E err buffer of
                  Inl x \<Rightarrow> [Uncaught x]
                | Inr v \<Rightarrow> [Setex k ttl v]))"

text \<open>
  The upstream \<^verbatim>\<open>get\<close> called with the caller's own callback: \<^verbatim>\<open>get(url, callback)\<close>
  after a failed lookup, \<^verbatim>\<open>get.call(source, url, callback)\<close> above the high water mark.
  The caller receives what that call answers.
\<close>

definition passthrough ::
  "receiver \<Rightarrow> string \<Rightarrow> jserror option \<times> jsval \<times> jsval \<Rightarrow> effect list" where
  "passthrough r url u =
     (case u of (err, buffer, headers) \<Rightarrow> [Upstream r url, Callback err buffer headers])"

text \<open>
  The callback of \<^verbatim>\<open>client.get\<close>; \<open>u\<close> is what the call of the upstream \<^verbatim>\<open>get\<close> answers,
  if the invocation makes one. After a failed lookup the call is \<^verbatim>\<open>get(url, callback)\<close>,
  without the source as receiver; after a miss it is \<^verbatim>\<open>get.call(source, url, ...)\<close>.
\<close>

definition readthrough_redis_callback ::
  "env \<Rightarrow> string \<Rightarrow> string \<Rightarrow> nat \<Rightarrow> jserror option \<times> bytes option
    \<Rightarrow> jserror option \<times> jsval \<times> jsval \<Rightarrow> effect list" where
  "readthrough_redis_callback E url k ttl s u =
     (case s of
        (Some e, encoded) \<Rightarrow> Emit (e\<lparr>key := Some k\<rparr>) # passthrough Detached url u
      | (None, None) \<Rightarrow> Upstream Source url # readthrough_get_callback E k ttl u
      | (None, Some b) \<Rightarrow>
          (case decode E (EBuffer b) of
             Inl x \<Rightarrow>
               Emit ((exn_error x)\<lparr>key := Some k\<rparr>) # Upstream Source url # readthrough_get_callback E k ttl u
           | Inr d \<Rightarrow>
               if truthy_data d then [deliver d]
               else Upstream Source url # readthrough_get_callback E k ttl u))"

text \<open>\<^verbatim>\<open>readthrough(url, callback)\<close>, given what the store and the upstream answer.\<close>

definition readthrough ::
  "env \<Rightarrow> string \<Rightarrow> jserror option \<times> bytes option \<Rightarrow> jserror option \<times> jsval \<times> jsval
    \<Rightarrow> effect list" where
  "readthrough E url s u =
     (let k = cache_key E url;
          ttl = resolve_expires E url
      in if below_high_water E
         then Get k # readthrough_redis_callback E url k ttl s u
         else Emit high_water_error # passthrough Source url u)"

section \<open>The store and an example environment\<close>

text \<open>
  The key-value store is an external capability: a \<^verbatim>\<open>setex\<close> of a key makes a later
  \<^verbatim>\<open>get\<close> of the key return the octets written (a string is stored as its octets).
  Expiry is left out.
\<close>

fun store_effect :: "effect \<Rightarrow> (string \<Rightarrow> bytes option) \<Rightarrow> (string \<Rightarrow> bytes option)" where
  "store_effect (Setex k ttl (EString s)) m = m(k := Some s)"
| "store_effect (Setex k ttl (EBuffer b)) m = m(k := Some b)"
| "store_effect e m = m"

definition store_after :: "effect list \<Rightarrow> (string \<Rightarrow> bytes option) \<Rightarrow> (string \<Rightarrow> bytes option)" where
  "store_after fx m = fold store_effect fx m"

text \<open>The entry a lookup finds once an encoded outcome has been written.\<close>

fun stored :: "encoded \<Rightarrow> bytes option" where
  "stored ENull = None"
| "stored (EString s) = Some s"
| "stored (EBuffer b) = Some b"

text \<open>\<^verbatim>\<open>decode(encode(err, buffer))\<close>.\<close>

definition decode_encode :: "env \<Rightarrow> jserror option \<Rightarrow> jsval \<Rightarrow> exn + data" where
  "decode_encode E err buffer =
     (case encode E err buffer of
        Inl x \<Rightarrow> Inl x
      | Inr c \<Rightarrow> decode E c)"

text \<open>An upstream completion that is an unhandled error, or a store completion.\<close>

fun opaque_upstream :: "event \<Rightarrow> bool" where
  "opaque_upstream (UpstreamDone err buffer headers) = (err \<noteq> None \<and> errcode err = None)"
| "opaque_upstream (StoreDone serr encoded) = True"

text \<open>
  An environment for the examples: namespace \<^verbatim>\<open>TL\<close>, a flat expiry of 300 seconds, an idle
  client, and a fragment of JSON (the texts \<^verbatim>\<open>{}\<close>, \<^verbatim>\<open>[]\<close> and \<^verbatim>\<open>null\<close>).
\<close>

fun example_stringify :: "jsval \<Rightarrow> string" where
  "example_stringify (JObj []) = ''{}''"
| "example_stringify (JArr []) = ''[]''"
| "example_stringify v = ''null''"

definition example_parse :: "string \<Rightarrow> jsval option" where
  "example_parse s =
     (if s = ''{}'' then Some (JObj [])
      else if s = ''[]'' then Some (JArr [])
      else if s = ''null'' then Some JNull
      else None)"

definition example_env :: env where
  "example_env =
     \<lparr>namespace = ''TL'', expires = ExpiresNumber 300,
      command_queue_length = 0, command_queue_high_water = 1000,
      urlParse_hostname = (\<lambda>url. None),
      JSON_stringify = example_stringify, JSON_parse = example_parse\<rparr>"

text \<open>The same environment with the command queue at its high water mark.\<close>

definition saturated_env :: env where
  "saturated_env = example_env\<lparr>command_queue_length := 1000\<rparr>"

section \<open>Basic facts\<close>

lemma toString_404: "toString 404 = ''404''"
  by (simp add: toString.simps digit_char_def)

lemma toString_403: "toString 403 = ''403''"
  by (simp add: toString.simps digit_char_def)

lemma parseInt_404: "parseInt ''404'' = 404"
  by (simp add: parseInt_def digit_value_def)

lemma parseInt_403: "parseInt ''403'' = 403"
  by (simp add: parseInt_def digit_value_def)

lemma errcode_cases: "errcode err = Some c \<Longrightarrow> c = 404 \<or> c = 403"
  by (cases err) (auto split: if_splits)

lemma example_env_simps:
  "below_high_water example_env"
  "\<not> below_high_water saturated_env"
  "cache_key example_env url = ''TL-'' @ url"
  "cache_key saturated_env url = ''TL-'' @ url"
  "resolve_expires example_env url = 300"
  "resolve_expires saturated_env url = 300"
  by (simp_all add: below_high_water_def cache_key_def resolve_expires_def
      example_env_def saturated_env_def)

lemma deliver_kind [simp]:
  "is_Callback (deliver d)" "\<not> is_Setex (deliver d)" "\<not> is_Get (deliver d)"
  by (cases d; simp)+

section \<open>The codec: what \<^verbatim>\<open>encode\<close> accepts and what \<^verbatim>\<open>decode\<close> gives back\<close>

lemma encode_opaque: "errcode (Some e) = None \<Longrightarrow> encode E (Some e) buffer = Inr ENull"
  by (simp add: encode_def)

lemma encode_empty_Buffer: "encode E None (JBuffer []) = Inr (EBuffer ''B'')"
  by (simp add: encode_def)

text \<open>
  C10 (encode on an absent payload). With no error and no buffer \<^verbatim>\<open>encode\<close> does not
  return a \<^verbatim>\<open>B\<close> entry: the last branch reads \<^verbatim>\<open>buffer.length\<close> of \<^verbatim>\<open>undefined\<close> (or
  \<^verbatim>\<open>null\<close>) and raises a \<^verbatim>\<open>TypeError\<close>; an empty string, which is falsy and reaches the
  same branch, makes \<^verbatim>\<open>Buffer.concat\<close> raise. Only an empty Buffer gives the entry \<^verbatim>\<open>B\<close>
  (\<open>encode_empty_Buffer\<close>).
\<close>

theorem encode_absent_payload_raises:
  "encode E None JUndefined = Inl TypeError
   \<and> encode E None JNull = Inl TypeError
   \<and> encode E None (JStr []) = Inl TypeError"
  by (simp add: encode_def)

lemma decode_encode_negative:
  assumes "errcode err = Some c"
  shows "decode_encode E err buffer = Inr (DErr (store_derived (int c)))"
    and "errcode (Some (store_derived (int c))) = Some c"
proof -
  consider "c = 404" | "c = 403"
    using errcode_cases [OF assms] by blast
  then show "decode_encode E err buffer = Inr (DErr (store_derived (int c)))"
    using assms
    by cases
       (simp_all add: decode_encode_def encode_def decode_slices_def
          toString_404 toString_403 parseInt_404 parseInt_403)
  show "errcode (Some (store_derived (int c))) = Some c"
    using errcode_cases [OF assms] by (auto simp: store_derived_def)
qed

lemma decode_encode_binary: "decode_encode E None (JBuffer b) = Inr (DVal (JBuffer b))"
  by (simp add: decode_encode_def encode_def decode_slices_def)

lemma decode_encode_text: "s \<noteq> [] \<Longrightarrow> decode_encode E None (JStr s) = Inr (DVal (JStr s))"
  by (simp add: decode_encode_def encode_def decode_slices_def)

lemma decode_encode_object:
  assumes "truthy v" "typeof_object v" "\<not> instanceof_Buffer v"
    and "JSON_parse E (JSON_stringify E v) = Some v"
  shows "decode_encode E None v = Inr (DVal v)"
  using assms by (simp add: decode_encode_def encode_def decode_slices_def)

text \<open>
  The outcomes the codec gives back: an error classified 404 or 403 comes back as the
  store-derived error of that number, which \<^verbatim>\<open>errcode\<close> classifies the same way
  (\<open>decode_encode_negative\<close>); a Buffer, a non-empty text and an object or array that
  \<^verbatim>\<open>JSON.parse(JSON.stringify(v))\<close> gives back come back unchanged
  (\<open>decode_encode_binary\<close>, \<open>decode_encode_text\<close>, \<open>decode_encode_object\<close>).
\<close>

text \<open>
  C2 (codec round trip). The law fails for a success whose text payload is the empty
  string: the string is falsy, so \<^verbatim>\<open>encode\<close> takes the Buffer branch and raises instead
  of returning an \<^verbatim>\<open>S\<close> entry, and \<^verbatim>\<open>decode(encode(null, ''))\<close> is an exception, not the
  payload.
\<close>

theorem decode_encode_empty_text_raises:
  "decode_encode E None (JStr []) = Inl TypeError
   \<and> decode_encode E None (JStr []) \<noteq> Inr (DVal (JStr []))"
  by (simp add: decode_encode_def encode_def)

section \<open>The readthrough strategy: misses, read errors and hits\<close>

lemma decode_invalid:
  assumes "\<not> List.member [''O'', ''S'', ''B''] (take 1 b)" and "b \<noteq> ''E404''" and "b \<noteq> ''E403''"
  shows "decode E (EBuffer b) = Inr (DErr (Error ''Invalid cache value''))"
proof -
  have "\<not> (take 1 b = ''E'' \<and> (drop 1 b = ''404'' \<or> drop 1 b = ''403''))"
  proof
    assume "take 1 b = ''E'' \<and> (drop 1 b = ''404'' \<or> drop 1 b = ''403'')"
    then have "take 1 b @ drop 1 b = ''E404'' \<or> take 1 b @ drop 1 b = ''E403''" by auto
    with assms(2,3) show False by simp
  qed
  with assms(1) show ?thesis
    by (auto simp: decode_slices_def Let_def)
qed

lemma decode_bad_json:
  "JSON_parse E rest = None \<Longrightarrow> decode E (EBuffer (CHR ''O'' # rest)) = Inl SyntaxError"
  by (simp add: decode_slices_def)

lemma readthrough_miss:
  "below_high_water E \<Longrightarrow>
   readthrough E url (None, None) u
     = Get (cache_key E url) # Upstream Source url
         # readthrough_get_callback E (cache_key E url) (resolve_expires E url) u"
  by (simp add: readthrough_def readthrough_redis_callback_def Let_def)

lemma callbacks_readthrough_get_callback:
  "callbacks (readthrough_get_callback E k ttl (err, buffer, headers))
     = [if err \<noteq> None \<and> errcode err = None then Callback err JUndefined JUndefined
        else Callback err buffer headers]"
  by (auto simp: readthrough_get_callback_def callbacks_def split: sum.splits)

lemma readthrough_hit:
  assumes "below_high_water E" and "decode E (EBuffer b) = Inr d" and "truthy_data d"
  shows "readthrough E url (None, Some b) u = [Get (cache_key E url), deliver d]"
  using assms by (simp add: readthrough_def readthrough_redis_callback_def Let_def del: decode.simps)

lemma readthrough_high_water:
  "\<not> below_high_water E \<Longrightarrow>
   readthrough E url s (err, buffer, headers)
     = [Emit high_water_error, Upstream Source url, Callback err buffer headers]"
  by (simp add: readthrough_def passthrough_def Let_def)

lemma readthrough_opaque_no_write:
  assumes "errcode (Some e) = None"
  shows "store_writes (readthrough E url s (Some e, buffer, headers)) = []"
  using assms
  by (auto simp: readthrough_def readthrough_redis_callback_def readthrough_get_callback_def
      passthrough_def store_writes_def Let_def
      split: prod.splits option.splits sum.splits)

text \<open>
  C5, as the claim states it, fails: an entry whose first octet is not a tag, and an \<^verbatim>\<open>E\<close>
  entry that is neither \<^verbatim>\<open>E404\<close> nor \<^verbatim>\<open>E403\<close>, make \<^verbatim>\<open>decode\<close> return (not throw) the
  error \<^verbatim>\<open>Invalid cache value\<close>, which readthrough hands to the caller: no diagnostic
  is emitted and the upstream is not called.
\<close>

theorem readthrough_invalid_entry_reaches_caller:
  "readthrough example_env ''/x'' (None, Some ''Xabc'') (None, JBuffer ''abc'', JUndefined)
     = [Get ''TL-/x'', Callback (Some (Error ''Invalid cache value'')) JUndefined JUndefined]
   \<and> readthrough example_env ''/x'' (None, Some ''E500'') (None, JBuffer ''abc'', JUndefined)
     = [Get ''TL-/x'', Callback (Some (Error ''Invalid cache value'')) JUndefined JUndefined]"
  by (simp add: readthrough_def readthrough_redis_callback_def decode_slices_def
      Let_def example_env_simps)

text \<open>
  C5, amended (decode failure in readthrough). Below the high water mark, an \<^verbatim>\<open>O\<close> entry
  whose JSON text does not parse is a miss with a diagnostic: the \<^verbatim>\<open>SyntaxError\<close> is
  emitted with the cache key, and the rest of the invocation is that of a plain miss, so
  the caller receives what the upstream answers (the error alone when it is unhandled).
  An entry with an invalid tag, or an \<^verbatim>\<open>E\<close> entry other than \<^verbatim>\<open>E404\<close> and \<^verbatim>\<open>E403\<close>, is not
  a miss: the caller receives the error \<^verbatim>\<open>Invalid cache value\<close> and nothing else happens.
\<close>

theorem readthrough_decode_failure:
  assumes "below_high_water E"
  shows "(JSON_parse E rest = None \<longrightarrow>
            readthrough E url (None, Some (CHR ''O'' # rest)) (err, buffer, headers)
              = Get (cache_key E url)
                  # Emit ((exn_error SyntaxError)\<lparr>key := Some (cache_key E url)\<rparr>)
                  # tl (readthrough E url (None, None) (err, buffer, headers))
            \<and> callbacks (readthrough E url (None, Some (CHR ''O'' # rest)) (err, buffer, headers))
                = [if err \<noteq> None \<and> errcode err = None then Callback err JUndefined JUndefined
                   else Callback err buffer headers])
       \<and> (\<not> List.member [''O'', ''S'', ''B''] (take 1 b) \<and> b \<noteq> ''E404'' \<and> b \<noteq> ''E403'' \<longrightarrow>
            readthrough E url (None, Some b) (err, buffer, headers)
              = [Get (cache_key E url),
                 Callback (Some (Error ''Invalid cache value'')) JUndefined JUndefined])"
proof (intro conjI impI)
  assume bad: "JSON_parse E rest = None"
  show a: "readthrough E url (None, Some (CHR ''O'' # rest)) (err, buffer, headers)
      = Get (cache_key E url)
          # Emit ((exn_error SyntaxError)\<lparr>key := Some (cache_key E url)\<rparr>)
          # tl (readthrough E url (None, None) (err, buffer, headers))"
    using assms decode_bad_json [OF bad]
    by (simp add: readthrough_def readthrough_redis_callback_def Let_def del: decode.simps)
  show "callbacks (readthrough E url (None, Some (CHR ''O'' # rest)) (err, buffer, headers))
      = [if err \<noteq> None \<and> errcode err = None then Callback err JUndefined JUndefined
         else Callback err buffer headers]"
    using callbacks_readthrough_get_callback [of E "cache_key E url" "resolve_expires E url" err buffer headers]
    unfolding a readthrough_miss [OF assms]
    by (simp add: callbacks_def)
next
  assume "\<not> List.member [''O'', ''S'', ''B''] (take 1 b) \<and> b \<noteq> ''E404'' \<and> b \<noteq> ''E403''"
  then have "decode E (EBuffer b) = Inr (DErr (Error ''Invalid cache value''))"
    using decode_invalid by blast
  with assms show "readthrough E url (None, Some b) (err, buffer, headers)
      = [Get (cache_key E url), Callback (Some (Error ''Invalid cache value'')) JUndefined JUndefined]"
    by (simp add: readthrough_def readthrough_redis_callback_def Let_def del: decode.simps)
qed

text \<open>An \<^verbatim>\<open>O\<close> entry holding \<^verbatim>\<open>{\<close>, and the entry \<^verbatim>\<open>bogus\<close>.\<close>

theorem readthrough_decode_failure_witness:
  "below_high_water example_env
   \<and> JSON_parse example_env ''{'' = None
   \<and> readthrough example_env ''/x'' (None, Some ''O{'') (None, JStr ''hello'', JUndefined)
       = [Get ''TL-/x'', Emit ((exn_error SyntaxError)\<lparr>key := Some ''TL-/x''\<rparr>),
          Upstream Source ''/x'', Callback None (JStr ''hello'') JUndefined,
          Setex ''TL-/x'' 300 (EBuffer ''Shello'')]
   \<and> readthrough example_env ''/x'' (None, Some ''bogus'') (None, JStr ''hello'', JUndefined)
       = [Get ''TL-/x'', Callback (Some (Error ''Invalid cache value'')) JUndefined JUndefined]"
proof -
  have h: "below_high_water example_env"
    by (rule example_env_simps)
  have j: "JSON_parse example_env ''{'' = None"
    by (simp add: example_env_def example_parse_def)
  have m: "readthrough example_env ''/x'' (None, None) (None, JStr ''hello'', JUndefined)
      = [Get ''TL-/x'', Upstream Source ''/x'', Callback None (JStr ''hello'') JUndefined,
         Setex ''TL-/x'' 300 (EBuffer ''Shello'')]"
    by (simp add: readthrough_miss [OF h] readthrough_get_callback_def encode_def example_env_simps)
  show ?thesis
    using h j m
      readthrough_decode_failure [OF h, of "''{''" "''/x''" None "JStr ''hello''" JUndefined "''bogus''"]
    by (simp add: example_env_simps)
qed

text \<open>
  After a failed lookup the trace is the lookup, the diagnostic carrying the cache key,
  the detached call of the upstream and the caller's callback with what that call
  answers; no \<^verbatim>\<open>setex\<close> follows.
\<close>

lemma readthrough_store_error:
  assumes "below_high_water E"
  shows "readthrough E url (Some e, encoded) (err, buffer, headers)
           = [Get (cache_key E url), Emit (e\<lparr>key := Some (cache_key E url)\<rparr>),
              Upstream Detached url, Callback err buffer headers]"
  using assms
  by (simp add: readthrough_def readthrough_redis_callback_def passthrough_def Let_def)

text \<open>
  C8 (store read error in readthrough). When \<^verbatim>\<open>client.get\<close> fails, the diagnostic
  carries the cache key and no \<^verbatim>\<open>setex\<close> is issued, but the upstream is called as
  \<^verbatim>\<open>get(url, callback)\<close>, detached from the source: what runs is not the fetch of the
  source the caller invoked, and what the caller receives is the answer of that detached
  call. After a miss, and above the high water mark, the same upstream is called with the
  source as its receiver.
\<close>

theorem readthrough_store_error_calls_detached:
  "readthrough example_env url (Some e, encoded) (err, buffer, headers)
     = [Get (''TL-'' @ url), Emit (e\<lparr>key := Some (''TL-'' @ url)\<rparr>),
        Upstream Detached url, Callback err buffer headers]
   \<and> take 2 (readthrough example_env url (None, None) (err, buffer, headers))
     = [Get (''TL-'' @ url), Upstream Source url]
   \<and> readthrough saturated_env url s (err, buffer, headers)
     = [Emit high_water_error, Upstream Source url, Callback err buffer headers]"
  by (simp add: readthrough_def readthrough_redis_callback_def passthrough_def Let_def
      example_env_simps)

section \<open>The race strategy: delivery, reconciliation and the high water mark\<close>

lemma race_store_first:
  assumes "below_high_water E" and "decode E (EBuffer b) = Inr d" and "truthy_data d"
  shows "callbacks (race E url [StoreDone None (Some b), UpstreamDone err buffer headers]) = [deliver d]"
  using assms
  by (auto simp: race_def race_get_callback_def race_redis_callback_def finalize_def callbacks_def
      Let_def split: sum.splits)

lemma race_upstream_first:
  assumes "encode E err buffer = Inr c"
  shows "callbacks (race E url [UpstreamDone err buffer headers]) = [Callback err buffer headers]"
    and "callbacks (race E url [UpstreamDone err buffer headers, StoreDone serr encoded])
           = [Callback err buffer headers]"
  using assms
  by (auto simp: race_def race_get_callback_def race_redis_callback_def finalize_def callbacks_def
      Let_def split: sum.splits option.splits)

text \<open>
  When \<^verbatim>\<open>encode\<close> returns for the upstream's answer, the caller is answered exactly once,
  whatever the store answers and in whichever order the two completions arrive.
\<close>

lemma race_delivers_once:
  assumes "encode E err buffer = Inr c"
    and "evs \<in> set (schedules E (err, buffer, headers) s)"
  shows "length (callbacks (race E url evs)) = 1"
  using assms
  by (cases s)
     (auto simp: schedules_def race_def race_get_callback_def race_redis_callback_def
        callbacks_def finalize_def Let_def
        split: if_splits option.splits sum.splits)

text \<open>
  C1, as the claim states it, fails: the entry \<^verbatim>\<open>S\<close> decodes, without error, to the empty
  string before the upstream resolves, yet the caller receives the upstream's payload:
  \<^verbatim>\<open>if (data)\<close> does not deliver a falsy decoded value.
\<close>

theorem race_empty_text_entry_not_delivered:
  "decode example_env (EBuffer ''S'') = Inr (DVal (JStr []))
   \<and> callbacks (race example_env ''/x''
        [StoreDone None (Some ''S''), UpstreamDone None (JBuffer ''abc'') JUndefined])
       = [Callback None (JBuffer ''abc'') JUndefined]"
  by (simp add: race_def race_get_callback_def race_redis_callback_def finalize_def callbacks_def
      encode_def decode_slices_def Let_def example_env_simps)

text \<open>
  C1, amended (race delivery rule). If the store answers first, without error, with an
  entry that \<^verbatim>\<open>decode\<close> turns into a truthy value (an error object, or data that is not
  \<^verbatim>\<open>null\<close>, \<^verbatim>\<open>false\<close>, \<^verbatim>\<open>0\<close> or the empty string), the caller receives that value and
  nothing else, whatever the upstream answers later. If the upstream answers first with
  an outcome for which \<^verbatim>\<open>encode\<close> returns, the caller receives the upstream's error,
  payload and headers and nothing else, whatever the store answers later.
\<close>

theorem race_delivery_rule:
  "(below_high_water E \<and> decode E (EBuffer b) = Inr d \<and> truthy_data d \<longrightarrow>
      callbacks (race E url [StoreDone None (Some b), UpstreamDone err buffer headers]) = [deliver d])
   \<and> ((\<exists>c. encode E err buffer = Inr c) \<longrightarrow>
      callbacks (race E url [UpstreamDone err buffer headers]) = [Callback err buffer headers]
      \<and> callbacks (race E url [UpstreamDone err buffer headers, StoreDone serr encoded])
           = [Callback err buffer headers])"
  by (auto simp: race_store_first race_upstream_first)

text \<open>The cached Buffer \<^verbatim>\<open>old\<close> against the upstream Buffer \<^verbatim>\<open>new\<close>, in both orders.\<close>

theorem race_delivery_rule_witness:
  "below_high_water example_env
   \<and> decode example_env (EBuffer ''Bold'') = Inr (DVal (JBuffer ''old''))
   \<and> truthy_data (DVal (JBuffer ''old''))
   \<and> callbacks (race example_env ''/x''
        [StoreDone None (Some ''Bold''), UpstreamDone None (JBuffer ''new'') JUndefined])
       = [Callback None (JBuffer ''old'') JUndefined]
   \<and> encode example_env None (JBuffer ''new'') = Inr (EBuffer ''Bnew'')
   \<and> callbacks (race example_env ''/x''
        [UpstreamDone None (JBuffer ''new'') JUndefined, StoreDone None (Some ''Bold'')])
       = [Callback None (JBuffer ''new'') JUndefined]"
proof -
  have d: "decode example_env (EBuffer ''Bold'') = Inr (DVal (JBuffer ''old''))"
    by (simp add: decode_slices_def)
  have e: "encode example_env None (JBuffer ''new'') = Inr (EBuffer ''Bnew'')"
    by (simp add: encode_def)
  show ?thesis
    using d e example_env_simps(1)
      race_delivery_rule [of example_env "''Bold''" "DVal (JBuffer ''old'')" "''/x''" None "JBuffer ''new''"
        JUndefined None "Some ''Bold''"]
    by simp
qed

text \<open>
  C3 (exactly one delivery in race). When the upstream answers with no error and no
  payload, or with the empty string, \<^verbatim>\<open>encode\<close> raises in the first statement of the
  upstream callback, before \<^verbatim>\<open>callback(err, buffer, headers)\<close>; with a store miss the
  caller's callback is then never invoked, in every order of the two completions. For
  the outcomes on which \<^verbatim>\<open>encode\<close> returns, the callback is invoked exactly once
  (\<open>race_delivers_once\<close>).
\<close>

theorem race_absent_payload_never_answers:
  "list_all (\<lambda>evs. callbacks (race E url evs) = [])
     (schedules E (None, JUndefined, headers) (None, None))
   \<and> list_all (\<lambda>evs. callbacks (race E url evs) = [])
     (schedules E (None, JStr [], headers) (None, None))"
  by (simp add: schedules_def race_def race_get_callback_def race_redis_callback_def
      callbacks_def encode_def Let_def)

text \<open>
  Reconciliation between two Buffers: once both encodings exist, equal octets give no
  write, and different octets give one \<^verbatim>\<open>setex\<close> of the upstream's encoding under the key
  with the resolved expiry, which a later lookup of the key returns.
\<close>

lemma race_reconciles_buffers:
  assumes "below_high_water E"
    and "encode E err buffer = Inr (EBuffer new)"
    and "decode E (EBuffer old) = Inr d"
    and "evs = [UpstreamDone err buffer headers, StoreDone None (Some old)]
       \<or> evs = [StoreDone None (Some old), UpstreamDone err buffer headers]"
  shows "store_writes (race E url evs)
           = (if old = new then [] else [Setex (cache_key E url) (resolve_expires E url) (EBuffer new)])"
    and "old \<noteq> new \<Longrightarrow> store_after (race E url evs) m (cache_key E url) = Some new"
  using assms
  by (auto simp: race_def race_get_callback_def race_redis_callback_def finalize_def
        store_writes_def store_after_def Let_def
        split: if_splits option.splits sum.splits)

text \<open>
  C4 (race reconciliation). For a negative outcome \<^verbatim>\<open>encode\<close> returns the string
  \<^verbatim>\<open>E404\<close>, not a Buffer, so \<^verbatim>\<open>bufferEqual(cached, current)\<close> is \<^verbatim>\<open>undefined\<close> and
  \<^verbatim>\<open>finalize\<close> writes although the cached entry holds the same octets \<^verbatim>\<open>E404\<close>, in both
  orders of the completions. Between two Buffers the write is skipped when the octets
  are equal (\<open>race_reconciles_buffers\<close>).
\<close>

theorem race_rewrites_equal_negative_entry:
  "encode example_env (Some ((Error [])\<lparr>status := JNum 404\<rparr>)) JUndefined = Inr (EString ''E404'')
   \<and> store_writes (race example_env url
        [StoreDone None (Some ''E404''),
         UpstreamDone (Some ((Error [])\<lparr>status := JNum 404\<rparr>)) JUndefined JUndefined])
       = [Setex (''TL-'' @ url) 300 (EString ''E404'')]
   \<and> store_writes (race example_env url
        [UpstreamDone (Some ((Error [])\<lparr>status := JNum 404\<rparr>)) JUndefined JUndefined,
         StoreDone None (Some ''E404'')])
       = [Setex (''TL-'' @ url) 300 (EString ''E404'')]"
  by (simp add: race_def race_get_callback_def race_redis_callback_def finalize_def store_writes_def
      encode_def decode_slices_def Error_def toString_404 parseInt_404 Let_def example_env_simps)

lemma race_get_callback_cached_null:
  assumes "cached st = ENull"
  shows "race_get_callback E k ttl err buffer headers st = (st', fx) \<Longrightarrow>
         cached st' = ENull \<and> store_writes fx = [] \<and> store_reads fx = []"
  using assms
  by (auto simp: race_get_callback_def store_writes_def store_reads_def Let_def
      split: if_splits sum.splits)

lemma race_run_upstream_only:
  "cached st = ENull \<Longrightarrow> list_all is_UpstreamDone evs \<Longrightarrow>
   store_writes (race_run E k ttl evs st) = [] \<and> store_reads (race_run E k ttl evs st) = []"
proof (induction evs arbitrary: st)
  case Nil
  then show ?case by (simp add: store_writes_def store_reads_def)
next
  case (Cons ev evs)
  from Cons.prems(2) obtain err buffer headers where ev: "ev = UpstreamDone err buffer headers"
    by (cases ev) auto
  obtain st' fx where step: "race_get_callback E k ttl err buffer headers st = (st', fx)"
    by (cases "race_get_callback E k ttl err buffer headers st")
  note inv = race_get_callback_cached_null [OF Cons.prems(1) step]
  have "list_all is_UpstreamDone evs" using Cons.prems(2) by simp
  with inv Cons.IH [of st'] show ?case
    using ev step by (simp add: store_writes_def store_reads_def)
qed

text \<open>
  At or above the high water mark neither strategy issues a \<^verbatim>\<open>get\<close> or a \<^verbatim>\<open>setex\<close>,
  whatever the upstream answers, and both emit the diagnostic.
\<close>

lemma high_water_no_store_command:
  assumes "\<not> below_high_water E"
  shows "store_reads (readthrough E url s u) = [] \<and> store_writes (readthrough E url s u) = []"
    and "store_reads (race E url evs) = [] \<and> store_writes (race E url evs) = []"
    and "Emit high_water_error \<in> set (readthrough E url s u)"
    and "Emit high_water_error \<in> set (race E url evs)"
proof -
  show "store_reads (readthrough E url s u) = [] \<and> store_writes (readthrough E url s u) = []"
    using assms
    by (cases u) (simp add: readthrough_def passthrough_def store_reads_def store_writes_def Let_def)
  have "list_all is_UpstreamDone (filter is_UpstreamDone evs)"
    by (simp add: list_all_iff)
  then show "store_reads (race E url evs) = [] \<and> store_writes (race E url evs) = []"
    using assms
      race_run_upstream_only [of "\<lparr>sent = False, cached = ENull, current = ENull\<rparr>"
        "filter is_UpstreamDone evs" E "cache_key E url" "resolve_expires E url"]
    by (simp add: race_def Let_def store_reads_def store_writes_def)
  show "Emit high_water_error \<in> set (readthrough E url s u)"
    using assms by (simp add: readthrough_def Let_def)
  show "Emit high_water_error \<in> set (race E url evs)"
    using assms by (simp add: race_def Let_def)
qed

text \<open>
  At or above the high water mark, race on an outcome for which \<^verbatim>\<open>encode\<close> returns is
  the upstream call, the diagnostic and the caller's callback with the upstream's answer.
\<close>

lemma race_high_water:
  "\<not> below_high_water E \<Longrightarrow> encode E err buffer = Inr c \<Longrightarrow>
   evs \<in> set (schedules E (err, buffer, headers) s) \<Longrightarrow>
   race E url evs = [Upstream Source url, Emit high_water_error, Callback err buffer headers]"
  by (cases s) (auto simp: schedules_def race_def race_get_callback_def Let_def)

text \<open>
  C6 (backpressure guard). With the command queue at its high water mark no store
  command is issued and the diagnostic is emitted (\<open>high_water_no_store_command\<close>);
  readthrough hands the upstream's answer to the caller (\<open>readthrough_high_water\<close>), and
  so does race when \<^verbatim>\<open>encode\<close> returns (\<open>race_high_water\<close>). But race encodes before it
  answers: when the upstream answers with no error and no payload, or with the empty
  string, the callback of the upstream raises and the caller never receives the
  upstream's answer.
\<close>

theorem race_high_water_absent_payload:
  "schedules saturated_env (None, JUndefined, headers) s = [[UpstreamDone None JUndefined headers]]
   \<and> race saturated_env url [UpstreamDone None JUndefined headers]
       = [Upstream Source url, Emit high_water_error, Uncaught TypeError]
   \<and> race saturated_env url [UpstreamDone None (JStr []) headers]
       = [Upstream Source url, Emit high_water_error, Uncaught TypeError]"
  by (cases s)
     (simp add: schedules_def race_def race_get_callback_def encode_def Let_def example_env_simps)

lemma race_get_callback_opaque:
  assumes "errcode (Some e) = None" and "current st = ENull"
  shows "race_get_callback E k ttl (Some e) buffer headers st = (st', fx) \<Longrightarrow>
         current st' = ENull \<and> store_writes fx = []"
  using assms by (auto simp: race_get_callback_def encode_def store_writes_def Let_def split: if_splits)

lemma race_redis_callback_current_null:
  assumes "current st = ENull"
  shows "race_redis_callback E k ttl serr encoded st = (st', fx) \<Longrightarrow>
         current st' = ENull \<and> store_writes fx = []"
  using assms
  by (auto simp: race_redis_callback_def store_writes_def Let_def
      split: if_splits option.splits sum.splits)

text \<open>
  While every upstream completion is an unhandled error, \<^verbatim>\<open>current\<close> stays \<^verbatim>\<open>null\<close>, so
  \<^verbatim>\<open>finalize\<close> is never reached.
\<close>

lemma race_run_opaque:
  "current st = ENull \<Longrightarrow> list_all opaque_upstream evs \<Longrightarrow>
   store_writes (race_run E k ttl evs st) = []"
proof (induction evs arbitrary: st)
  case Nil
  then show ?case by (simp add: store_writes_def)
next
  case (Cons ev evs)
  obtain st' fx where step: "race_step E k ttl ev st = (st', fx)"
    by (cases "race_step E k ttl ev st")
  have "current st' = ENull \<and> store_writes fx = []"
  proof (cases ev)
    case (UpstreamDone err buffer headers)
    with Cons.prems obtain e where "err = Some e" "errcode (Some e) = None" by auto
    with step UpstreamDone Cons.prems(1) show ?thesis
      using race_get_callback_opaque by simp
  next
    case (StoreDone serr encoded)
    with step Cons.prems(1) show ?thesis
      using race_redis_callback_current_null by simp
  qed
  moreover have "list_all opaque_upstream evs" using Cons.prems by simp
  ultimately show ?case
    using Cons.IH [of st'] step by (simp add: store_writes_def)
qed

lemma race_opaque_no_write:
  assumes "list_all opaque_upstream evs"
  shows "store_writes (race E url evs) = []"
proof -
  let ?st0 = "\<lparr>sent = False, cached = ENull, current = ENull\<rparr>"
  have a: "store_writes (race_run E k ttl evs ?st0) = []" for k ttl
    using assms by (simp add: race_run_opaque)
  have "list_all opaque_upstream (filter is_UpstreamDone evs)"
    using assms by (simp add: list_all_iff)
  then have b: "store_writes (race_run E k ttl (filter is_UpstreamDone evs) ?st0) = []" for k ttl
    by (simp add: race_run_opaque)
  show ?thesis
    using a b by (simp add: race_def Let_def store_writes_def)
qed

lemma schedules_opaque:
  assumes "errcode (Some e) = None" and "evs \<in> set (schedules E (Some e, buffer, headers) s)"
  shows "list_all opaque_upstream evs"
  using assms by (cases s) (auto simp: schedules_def split: if_splits)

text \<open>
  C7 (unhandled failures are not cached). For an upstream error that \<^verbatim>\<open>errcode\<close> does not
  classify as 404 or 403, \<^verbatim>\<open>encode\<close> returns \<^verbatim>\<open>null\<close>; readthrough issues no \<^verbatim>\<open>setex\<close>,
  whatever the store answered; and race issues no \<^verbatim>\<open>setex\<close>, whatever the store answers
  and in whichever order the completions arrive.
\<close>

theorem opaque_failure_never_written:
  assumes "errcode (Some e) = None"
  shows "encode E (Some e) buffer = Inr ENull
       \<and> store_writes (readthrough E url s (Some e, buffer, headers)) = []
       \<and> (\<forall>evs \<in> set (schedules E (Some e, buffer, headers) s).
            store_writes (race E url evs) = [])"
  using assms encode_opaque readthrough_opaque_no_write schedules_opaque race_opaque_no_write
  by blast

text \<open>The error \<^verbatim>\<open>boom\<close>, after a miss in readthrough and against a cached Buffer in race.\<close>

theorem opaque_failure_never_written_witness:
  "errcode (Some (Error ''boom'')) = None
   \<and> encode example_env (Some (Error ''boom'')) JUndefined = Inr ENull
   \<and> readthrough example_env ''/x'' (None, None) (Some (Error ''boom''), JUndefined, JUndefined)
       = [Get ''TL-/x'', Upstream Source ''/x'', Callback (Some (Error ''boom'')) JUndefined JUndefined]
   \<and> store_writes (race example_env ''/x''
        [StoreDone None (Some ''Babc''), UpstreamDone (Some (Error ''boom'')) JUndefined JUndefined]) = []"
proof -
  have h: "errcode (Some (Error ''boom'')) = None"
    by (simp add: Error_def)
  have m: "[StoreDone None (Some ''Babc''), UpstreamDone (Some (Error ''boom'')) JUndefined JUndefined]
      \<in> set (schedules example_env (Some (Error ''boom''), JUndefined, JUndefined) (None, Some ''Babc''))"
    by (simp add: schedules_def example_env_simps)
  have r: "readthrough example_env ''/x'' (None, None) (Some (Error ''boom''), JUndefined, JUndefined)
       = [Get ''TL-/x'', Upstream Source ''/x'', Callback (Some (Error ''boom'')) JUndefined JUndefined]"
    by (simp add: readthrough_def readthrough_redis_callback_def readthrough_get_callback_def
        example_env_simps Error_def)
  show ?thesis
    using h m r
      opaque_failure_never_written [OF h, of example_env JUndefined "''/x''" "(None, Some ''Babc'')" JUndefined]
    by blast
qed

section \<open>What a cache hit delivers\<close>

lemma encode_negative:
  "errcode err = Some n \<Longrightarrow> encode E err buffer = Inr (EString (CHR ''E'' # toString n))"
  by (simp add: encode_def)

lemma decode_negative_entry:
  assumes "errcode err = Some n"
  shows "decode E (EBuffer (CHR ''E'' # toString n)) = Inr (DErr (store_derived (int n)))"
  using errcode_cases [OF assms]
  by (auto simp: decode_slices_def toString_404 toString_403 parseInt_404 parseInt_403)

lemma encode_success_is_Buffer:
  "encode E None buffer = Inr c \<Longrightarrow> \<exists>b. c = EBuffer b"
  by (cases buffer) (auto simp: encode_def split: if_splits sum.splits)

lemma roundtrip_payload_truthy:
  assumes "decode_encode E None buffer = Inr (DVal buffer)"
  shows "truthy buffer"
  using assms
  by (cases buffer) (auto simp: decode_encode_def encode_def decode_slices_def split: if_splits)

lemma hit_entry:
  assumes "encode E err buffer = Inr c"
  shows "errcode err = Some n \<Longrightarrow>
           stored c = Some (CHR ''E'' # toString n)
           \<and> decode E (EBuffer (CHR ''E'' # toString n)) = Inr (DErr (store_derived (int n)))"
    and "err = None \<Longrightarrow> decode_encode E None buffer = Inr (DVal buffer) \<Longrightarrow>
           \<exists>b. stored c = Some b \<and> decode E (EBuffer b) = Inr (DVal buffer)"
proof -
  show "stored c = Some (CHR ''E'' # toString n)
      \<and> decode E (EBuffer (CHR ''E'' # toString n)) = Inr (DErr (store_derived (int n)))"
    if "errcode err = Some n"
    using that assms encode_negative [OF that, of E buffer] decode_negative_entry [OF that, of E]
    by auto
  show "\<exists>b. stored c = Some b \<and> decode E (EBuffer b) = Inr (DVal buffer)"
    if "err = None" "decode_encode E None buffer = Inr (DVal buffer)"
    using that assms encode_success_is_Buffer [of E buffer c]
    by (auto simp: decode_encode_def)
qed

text \<open>
  C9, as the claim states it, fails: a miss hands the upstream's headers to the caller,
  and the hit on the entry that miss wrote hands over the same payload with no headers.
\<close>

theorem cache_hit_drops_headers:
  "readthrough example_env ''/x'' (None, None) (None, JBuffer ''abc'', JObj [(''ETag'', JStr ''1'')])
     = [Get ''TL-/x'', Upstream Source ''/x'', Callback None (JBuffer ''abc'') (JObj [(''ETag'', JStr ''1'')]),
        Setex ''TL-/x'' 300 (EBuffer ''Babc'')]
   \<and> readthrough example_env ''/x'' (None, stored (EBuffer ''Babc''))
        (None, JBuffer ''abc'', JObj [(''ETag'', JStr ''1'')])
     = [Get ''TL-/x'', Callback None (JBuffer ''abc'') JUndefined]"
  by (simp add: readthrough_def readthrough_redis_callback_def readthrough_get_callback_def
      encode_def decode_slices_def Let_def example_env_simps)

text \<open>
  C9, amended (what a cache hit delivers). Below the high water mark, a lookup that finds
  the entry \<^verbatim>\<open>encode\<close> gave for an upstream outcome answers the caller from the entry alone,
  in readthrough and, when the store answers first, in race. For an outcome classified
  404 or 403 the caller receives the store-derived error of that number, which
  \<^verbatim>\<open>errcode\<close> classifies as the upstream's error, and no payload or headers. For a
  success whose payload the codec returns unchanged, the caller receives no error, the
  same payload, and no headers.
\<close>

theorem cache_hit_delivery:
  assumes "below_high_water E" and "encode E err buffer = Inr c"
  shows "(errcode err = Some n \<longrightarrow>
            readthrough E url (None, stored c) u
              = [Get (cache_key E url), Callback (Some (store_derived (int n))) JUndefined JUndefined]
            \<and> callbacks (race E url [StoreDone None (stored c), UpstreamDone err' buffer' headers'])
              = [Callback (Some (store_derived (int n))) JUndefined JUndefined]
            \<and> errcode (Some (store_derived (int n))) = errcode err)
       \<and> (err = None \<and> decode_encode E None buffer = Inr (DVal buffer) \<longrightarrow>
            readthrough E url (None, stored c) u
              = [Get (cache_key E url), Callback None buffer JUndefined]
            \<and> callbacks (race E url [StoreDone None (stored c), UpstreamDone err' buffer' headers'])
              = [Callback None buffer JUndefined])"
proof (intro conjI impI)
  assume n: "errcode err = Some n"
  note h = hit_entry(1) [OF assms(2) n]
  show "readthrough E url (None, stored c) u
      = [Get (cache_key E url), Callback (Some (store_derived (int n))) JUndefined JUndefined]"
    using h readthrough_hit [OF assms(1), of "CHR ''E'' # toString n" "DErr (store_derived (int n))"]
    by simp
  show "callbacks (race E url [StoreDone None (stored c), UpstreamDone err' buffer' headers'])
      = [Callback (Some (store_derived (int n))) JUndefined JUndefined]"
    using h race_store_first [OF assms(1), of "CHR ''E'' # toString n" "DErr (store_derived (int n))"]
    by simp
  show "errcode (Some (store_derived (int n))) = errcode err"
    using decode_encode_negative(2) [OF n] n by simp
next
  assume a: "err = None \<and> decode_encode E None buffer = Inr (DVal buffer)"
  then obtain b where b: "stored c = Some b" "decode E (EBuffer b) = Inr (DVal buffer)"
    using hit_entry(2) [OF assms(2)] by blast
  have t: "truthy_data (DVal buffer)"
    using a roundtrip_payload_truthy by auto
  show "readthrough E url (None, stored c) u = [Get (cache_key E url), Callback None buffer JUndefined]"
    using readthrough_hit [OF assms(1) b(2) t] b(1) by simp
  show "callbacks (race E url [StoreDone None (stored c), UpstreamDone err' buffer' headers'])
      = [Callback None buffer JUndefined]"
    using race_store_first [OF assms(1) b(2) t] b(1) by simp
qed

text \<open>A hit on the entry written for the text \<^verbatim>\<open>hello\<close>.\<close>

theorem cache_hit_delivery_witness:
  "below_high_water example_env
   \<and> encode example_env None (JStr ''hello'') = Inr (EBuffer ''Shello'')
   \<and> decode_encode example_env None (JStr ''hello'') = Inr (DVal (JStr ''hello''))
   \<and> readthrough example_env ''/x'' (None, Some ''Shello'') (None, JStr ''hello'', JObj [])
       = [Get ''TL-/x'', Callback None (JStr ''hello'') JUndefined]
   \<and> callbacks (race example_env ''/x''
        [StoreDone None (Some ''Shello''), UpstreamDone None (JStr ''hello'') (JObj [])])
       = [Callback None (JStr ''hello'') JUndefined]"
proof -
  have h: "below_high_water example_env"
    by (rule example_env_simps)
  have e: "encode example_env None (JStr ''hello'') = Inr (EBuffer ''Shello'')"
    by (simp add: encode_def)
  have r: "decode_encode example_env None (JStr ''hello'') = Inr (DVal (JStr ''hello''))"
    by (simp add: decode_encode_text)
  show ?thesis
    using h e r
      cache_hit_delivery [OF h e, of 404 "''/x''" "(None, JStr ''hello'', JObj [])" None "JStr ''hello''" "JObj []"]
    by (simp add: example_env_simps)
qed

end
